theory Spec2Isabelle
  imports Complex_Main
begin

section \<open>Floating-point values\<close>

text \<open>
  The kernels of \<^verbatim>\<open>pykernels/regular.py\<close> compute on numpy arrays of
  floating-point numbers.  An array entry is a finite number or one of the
  special values that numpy produces instead of raising: plus and minus
  infinity and not-a-number.  Finite values are exact reals here: rounding,
  overflow and the sign of zero are outside this model (a zero divisor is the
  positive zero).
\<close>

datatype npfloat = Fin real | PInf | NInf | NaN

fun np_negative :: "npfloat \<Rightarrow> npfloat" where
  "np_negative (Fin x) = Fin (- x)"
| "np_negative PInf = NInf"
| "np_negative NInf = PInf"
| "np_negative NaN = NaN"

fun np_add :: "npfloat \<Rightarrow> npfloat \<Rightarrow> npfloat" where
  "np_add (Fin x) (Fin y) = Fin (x + y)"
| "np_add NaN y = NaN"
| "np_add x NaN = NaN"
| "np_add PInf NInf = NaN"
| "np_add NInf PInf = NaN"
| "np_add PInf y = PInf"
| "np_add x PInf = PInf"
| "np_add NInf y = NInf"
| "np_add x NInf = NInf"

definition np_subtract :: "npfloat \<Rightarrow> npfloat \<Rightarrow> npfloat" where
  "np_subtract x y = np_add x (np_negative y)"

fun np_multiply :: "npfloat \<Rightarrow> npfloat \<Rightarrow> npfloat" where
  "np_multiply (Fin x) (Fin y) = Fin (x * y)"
| "np_multiply NaN y = NaN"
| "np_multiply x NaN = NaN"
| "np_multiply PInf (Fin y) = (if y = 0 then NaN else if 0 < y then PInf else NInf)"
| "np_multiply NInf (Fin y) = (if y = 0 then NaN else if 0 < y then NInf else PInf)"
| "np_multiply (Fin x) PInf = (if x = 0 then NaN else if 0 < x then PInf else NInf)"
| "np_multiply (Fin x) NInf = (if x = 0 then NaN else if 0 < x then NInf else PInf)"
| "np_multiply PInf PInf = PInf"
| "np_multiply PInf NInf = NInf"
| "np_multiply NInf PInf = NInf"
| "np_multiply NInf NInf = PInf"

fun np_divide :: "npfloat \<Rightarrow> npfloat \<Rightarrow> npfloat" where
  "np_divide (Fin x) (Fin y) =
     (if y = 0 then (if x = 0 then NaN else if 0 < x then PInf else NInf)
      else Fin (x / y))"
| "np_divide NaN y = NaN"
| "np_divide x NaN = NaN"
| "np_divide (Fin x) PInf = Fin 0"
| "np_divide (Fin x) NInf = Fin 0"
| "np_divide PInf (Fin y) = (if 0 \<le> y then PInf else NInf)"
| "np_divide NInf (Fin y) = (if 0 \<le> y then NInf else PInf)"
| "np_divide PInf PInf = NaN"
| "np_divide PInf NInf = NaN"
| "np_divide NInf PInf = NaN"
| "np_divide NInf NInf = NaN"

fun np_sqrt :: "npfloat \<Rightarrow> npfloat" where
  "np_sqrt (Fin x) = (if x < 0 then NaN else Fin (sqrt x))"
| "np_sqrt PInf = PInf"
| "np_sqrt NInf = NaN"
| "np_sqrt NaN = NaN"

fun np_exp :: "npfloat \<Rightarrow> npfloat" where
  "np_exp (Fin x) = Fin (exp x)"
| "np_exp PInf = PInf"
| "np_exp NInf = Fin 0"
| "np_exp NaN = NaN"

fun np_log :: "npfloat \<Rightarrow> npfloat" where
  "np_log (Fin x) = (if 0 < x then Fin (ln x) else if x = 0 then NInf else NaN)"
| "np_log PInf = PInf"
| "np_log NInf = NaN"
| "np_log NaN = NaN"

fun np_abs :: "npfloat \<Rightarrow> npfloat" where
  "np_abs (Fin x) = Fin \<bar>x\<bar>"
| "np_abs PInf = PInf"
| "np_abs NInf = PInf"
| "np_abs NaN = NaN"

fun np_minimum :: "npfloat \<Rightarrow> npfloat \<Rightarrow> npfloat" where
  "np_minimum (Fin x) (Fin y) = Fin (min x y)"
| "np_minimum NaN y = NaN"
| "np_minimum x NaN = NaN"
| "np_minimum NInf y = NInf"
| "np_minimum x NInf = NInf"
| "np_minimum PInf y = y"
| "np_minimum x PInf = x"

text \<open>The comparison \<^verbatim>\<open>x < y\<close>; it is false whenever an operand is not a number.\<close>

fun np_less :: "npfloat \<Rightarrow> npfloat \<Rightarrow> bool" where
  "np_less (Fin x) (Fin y) = (x < y)"
| "np_less NaN y = False"
| "np_less x NaN = False"
| "np_less PInf y = False"
| "np_less x NInf = False"
| "np_less NInf y = True"
| "np_less x PInf = True"

text \<open>
  The comparison \<^verbatim>\<open>x == y\<close>, which is false whenever an operand is not a
  number, also of a value with itself.
\<close>

definition np_equal :: "npfloat \<Rightarrow> npfloat \<Rightarrow> bool" where
  "np_equal x y = (x \<noteq> NaN \<and> y \<noteq> NaN \<and> x = y)"

text \<open>
  The power \<^verbatim>\<open>x ** d\<close> of an array entry to a scalar exponent, which is a
  finite number: anything to the power zero is one, a negative base has a power
  only for an integer exponent, and zero to a negative power is infinite.
\<close>

definition is_integer :: "real \<Rightarrow> bool" where
  "is_integer d = (d = of_int \<lfloor>d\<rfloor>)"

definition is_odd_integer :: "real \<Rightarrow> bool" where
  "is_odd_integer d = (is_integer d \<and> odd \<lfloor>d\<rfloor>)"

fun np_power :: "npfloat \<Rightarrow> real \<Rightarrow> npfloat" where
  "np_power (Fin x) d =
     (if d = 0 then Fin 1
      else if 0 < x then Fin (x powr d)
      else if x = 0 then (if 0 < d then Fin 0 else PInf)
      else if is_odd_integer d then Fin (- (\<bar>x\<bar> powr d))
      else if is_integer d then Fin (\<bar>x\<bar> powr d)
      else NaN)"
| "np_power PInf d = (if d = 0 then Fin 1 else if 0 < d then PInf else Fin 0)"
| "np_power NInf d =
     (if d = 0 then Fin 1
      else if 0 < d then (if is_odd_integer d then NInf else PInf)
      else Fin 0)"
| "np_power NaN d = (if d = 0 then Fin 1 else NaN)"

section \<open>Arrays\<close>

text \<open>
  A two-dimensional array: its rows, and its number of columns
  \<^verbatim>\<open>shape[1]\<close>, which an array with no row has too.
\<close>

record ndarray =
  shape1 :: nat
  rows :: "npfloat list list"

definition shape0 :: "ndarray \<Rightarrow> nat" where
  "shape0 a = length (rows a)"

definition wf_ndarray :: "ndarray \<Rightarrow> bool" where
  "wf_ndarray a = list_all (\<lambda>r. length r = shape1 a) (rows a)"

text \<open>An operation applied to every entry (a scalar operand is broadcast).\<close>

definition map_ndarray :: "(npfloat \<Rightarrow> npfloat) \<Rightarrow> ndarray \<Rightarrow> ndarray" where
  "map_ndarray f a = a\<lparr>rows := map (map f) (rows a)\<rparr>"

text \<open>\<^verbatim>\<open>np.any(data < 0)\<close>\<close>

definition np_any_negative :: "ndarray \<Rightarrow> bool" where
  "np_any_negative a = list_ex (list_ex (\<lambda>x. np_less x (Fin 0))) (rows a)"

text \<open>\<^verbatim>\<open>np.zeros((n1, n2))\<close>\<close>

definition np_zeros :: "nat \<Rightarrow> nat \<Rightarrow> ndarray" where
  "np_zeros n1 n2 = \<lparr>shape1 = n2, rows = replicate n1 (replicate n2 (Fin 0))\<rparr>"

datatype error = Exception string | IndexError | ShapeMismatchError

text \<open>\<^verbatim>\<open>data[:, d]\<close>, which raises for a column the array does not have.\<close>

definition column :: "ndarray \<Rightarrow> nat \<Rightarrow> error + npfloat list" where
  "column a d = (if d < shape1 a then Inr (map (\<lambda>r. r ! d) (rows a)) else Inl IndexError)"

text \<open>
  \<^verbatim>\<open>f(column_1, column_2.T)\<close> for a column vector and a row vector: broadcasting
  gives the matrix of \<open>f\<close> on every pair of entries.
\<close>

definition broadcast :: "(npfloat \<Rightarrow> npfloat \<Rightarrow> npfloat) \<Rightarrow> npfloat list \<Rightarrow> npfloat list \<Rightarrow> npfloat list list" where
  "broadcast f column_1 column_2 = map (\<lambda>x. map (\<lambda>y. f x y) column_2) column_1"

text \<open>\<^verbatim>\<open>kernel += m\<close>\<close>

definition iadd :: "ndarray \<Rightarrow> npfloat list list \<Rightarrow> ndarray" where
  "iadd kern m = kern\<lparr>rows := map2 (map2 np_add) (rows kern) m\<rparr>"

section \<open>The distance utility\<close>

text \<open>
  Modelled from the spec: \<^verbatim>\<open>utils.euclidean_dist_matrix\<close> is imported by
  \<^verbatim>\<open>regular.py\<close> and is not among the source files.  The specification
  (section 4.1) gives its contract: for \<open>A\<close> of shape \<open>(n1, d)\<close> and \<open>B\<close> of
  shape \<open>(n2, d)\<close> it returns \<open>D\<close> of shape \<open>(n1, n2)\<close>, where \<open>D[i,j]\<close> is the
  squared Euclidean distance of row \<open>i\<close> of \<open>A\<close> and row \<open>j\<close> of \<open>B\<close>, computed by
  the expansion \<open>||a||\<^sup>2 + ||b||\<^sup>2 - 2 a.b\<close>; differing column counts are a
  shape mismatch error (section 7).
\<close>

definition np_sum :: "npfloat list \<Rightarrow> npfloat" where
  "np_sum xs = foldl np_add (Fin 0) xs"

definition sq_norm :: "npfloat list \<Rightarrow> npfloat" where
  "sq_norm a = np_sum (map (\<lambda>x. np_multiply x x) a)"

definition dot :: "npfloat list \<Rightarrow> npfloat list \<Rightarrow> npfloat" where
  "dot a b = np_sum (map2 np_multiply a b)"

definition sq_dist :: "npfloat list \<Rightarrow> npfloat list \<Rightarrow> npfloat" where
  "sq_dist a b =
     np_subtract (np_add (sq_norm a) (sq_norm b)) (np_multiply (Fin 2) (dot a b))"

definition euclidean_dist_matrix :: "ndarray \<Rightarrow> ndarray \<Rightarrow> error + ndarray" where
  "euclidean_dist_matrix data_1 data_2 =
     (if shape1 data_1 \<noteq> shape1 data_2 then Inl ShapeMismatchError
      else Inr \<lparr>shape1 = shape0 data_2,
                 rows = map (\<lambda>a. map (\<lambda>b. sq_dist a b) (rows data_2)) (rows data_1)\<rparr>)"

section \<open>Kernels computed from the distance matrix\<close>

text \<open>
  Each \<^verbatim>\<open>_compute\<close> below is the method of the class of that name.  A
  method that assigns a field of its instance returns the field's new value
  beside its result, also when it raises after the assignment.
\<close>

text \<open>\<^verbatim>\<open>Exponential.__init__(sigma=None)\<close>: the field \<^verbatim>\<open>_sigma\<close>.\<close>

definition Exponential_init :: "real option \<Rightarrow> real option" where
  "Exponential_init sigma = (case sigma of None \<Rightarrow> None | Some s \<Rightarrow> Some (2 * s ^ 2))"

definition Exponential_compute :: "real option \<Rightarrow> ndarray \<Rightarrow> ndarray \<Rightarrow> real option \<times> (error + ndarray)" where
  "Exponential_compute sigma data_1 data_2 =
     (let sigma' = (case sigma of None \<Rightarrow> real (shape1 data_1) | Some s \<Rightarrow> s)
      in (Some sigma',
          case euclidean_dist_matrix data_1 data_2 of
            Inl e \<Rightarrow> Inl e
          | Inr dists_sq \<Rightarrow>
              Inr (map_ndarray
                    (\<lambda>x. np_exp (np_divide (np_negative (np_sqrt x)) (Fin sigma')))
                    dists_sq)))"

text \<open>
  \<^verbatim>\<open>Laplacian(Exponential)\<close> overrides \<^verbatim>\<open>__init__\<close> only; its
  \<^verbatim>\<open>_compute\<close> and \<^verbatim>\<open>dim\<close> are those of \<^verbatim>\<open>Exponential\<close>.
\<close>

definition Laplacian_init :: "real option \<Rightarrow> real option" where
  "Laplacian_init sigma = sigma"

definition RationalQuadratic_init :: "real \<Rightarrow> real" where
  "RationalQuadratic_init c = c"

definition RationalQuadratic_compute :: "real \<Rightarrow> ndarray \<Rightarrow> ndarray \<Rightarrow> error + ndarray" where
  "RationalQuadratic_compute c data_1 data_2 =
     (case euclidean_dist_matrix data_1 data_2 of
        Inl e \<Rightarrow> Inl e
      | Inr dists_sq \<Rightarrow>
          Inr (map_ndarray
                (\<lambda>x. np_subtract (Fin 1) (np_divide x (np_add x (Fin c))))
                dists_sq))"

definition InverseMultiquadratic_init :: "real \<Rightarrow> real" where
  "InverseMultiquadratic_init c = c ^ 2"

definition InverseMultiquadratic_compute :: "real \<Rightarrow> ndarray \<Rightarrow> ndarray \<Rightarrow> error + ndarray" where
  "InverseMultiquadratic_compute c data_1 data_2 =
     (case euclidean_dist_matrix data_1 data_2 of
        Inl e \<Rightarrow> Inl e
      | Inr dists_sq \<Rightarrow>
          Inr (map_ndarray
                (\<lambda>x. np_divide (Fin 1) (np_sqrt (np_add x (Fin c))))
                dists_sq))"

definition Cauchy_init :: "real option \<Rightarrow> real option" where
  "Cauchy_init sigma = (case sigma of None \<Rightarrow> None | Some s \<Rightarrow> Some (s ^ 2))"

definition Cauchy_compute :: "real option \<Rightarrow> ndarray \<Rightarrow> ndarray \<Rightarrow> real option \<times> (error + ndarray)" where
  "Cauchy_compute sigma data_1 data_2 =
     (let sigma' = (case sigma of None \<Rightarrow> real (shape1 data_1) | Some s \<Rightarrow> s)
      in (Some sigma',
          case euclidean_dist_matrix data_1 data_2 of
            Inl e \<Rightarrow> Inl e
          | Inr dists_sq \<Rightarrow>
              Inr (map_ndarray
                    (\<lambda>x. np_divide (Fin 1) (np_add (Fin 1) (np_divide x (Fin sigma'))))
                    dists_sq)))"

definition TStudent_init :: "real \<Rightarrow> real" where
  "TStudent_init degree = degree"

definition TStudent_compute :: "real \<Rightarrow> ndarray \<Rightarrow> ndarray \<Rightarrow> error + ndarray" where
  "TStudent_compute d data_1 data_2 =
     (case euclidean_dist_matrix data_1 data_2 of
        Inl e \<Rightarrow> Inl e
      | Inr dists_sq \<Rightarrow>
          (let dists = map_ndarray np_sqrt dists_sq
           in Inr (map_ndarray
                    (\<lambda>x. np_divide (Fin 1) (np_add (Fin 1) (np_power x d)))
                    dists)))"

definition Log_init :: "real \<Rightarrow> real" where
  "Log_init d = d"

definition Log_compute :: "real \<Rightarrow> ndarray \<Rightarrow> ndarray \<Rightarrow> error + ndarray" where
  "Log_compute d data_1 data_2 =
     (case euclidean_dist_matrix data_1 data_2 of
        Inl e \<Rightarrow> Inl e
      | Inr dists_sq \<Rightarrow>
          Inr (map_ndarray
                (\<lambda>x. np_negative
                       (np_log (np_add (np_divide (np_power x d) (Fin 2)) (Fin 1))))
                dists_sq))"

definition Power_init :: "real \<Rightarrow> real" where
  "Power_init d = d"

text \<open>
  \<^verbatim>\<open>- euclidean_dist_matrix(data_1, data_2) ** self._d / 2.\<close>: the power
  binds tighter than the sign, and the sign tighter than the division.
\<close>

definition Power_compute :: "real \<Rightarrow> ndarray \<Rightarrow> ndarray \<Rightarrow> error + ndarray" where
  "Power_compute d data_1 data_2 =
     (case euclidean_dist_matrix data_1 data_2 of
        Inl e \<Rightarrow> Inl e
      | Inr dists_sq \<Rightarrow>
          Inr (map_ndarray
                (\<lambda>x. np_divide (np_negative (np_power x d)) (Fin 2))
                dists_sq))"

section \<open>Kernels computed column by column\<close>

text \<open>
  The loop that \<^verbatim>\<open>ANOVA\<close>, \<^verbatim>\<open>AdditiveChi2\<close>, \<^verbatim>\<open>Chi2\<close> and
  \<^verbatim>\<open>Min\<close> each write out:
  \<^verbatim>\<open>
  for d in range(data_1.shape[1]):
      column_1 = data_1[:, d].reshape(-1, 1)
      column_2 = data_2[:, d].reshape(-1, 1)
      kernel += f(column_1, column_2.T)
  \<close>
  over the remaining values \<open>ds\<close> of \<open>d\<close>, from the accumulator \<open>kern\<close>.
\<close>

fun column_loop :: "(npfloat \<Rightarrow> npfloat \<Rightarrow> npfloat) \<Rightarrow> ndarray \<Rightarrow> ndarray \<Rightarrow> nat list \<Rightarrow> ndarray \<Rightarrow> error + ndarray" where
  "column_loop f data_1 data_2 [] kern = Inr kern"
| "column_loop f data_1 data_2 (d # ds) kern =
     (case column data_1 d of
        Inl e \<Rightarrow> Inl e
      | Inr column_1 \<Rightarrow>
          (case column data_2 d of
             Inl e \<Rightarrow> Inl e
           | Inr column_2 \<Rightarrow>
               column_loop f data_1 data_2 ds (iadd kern (broadcast f column_1 column_2))))"

definition ANOVA_compute :: "real \<Rightarrow> real \<Rightarrow> ndarray \<Rightarrow> ndarray \<Rightarrow> error + ndarray" where
  "ANOVA_compute sigma d data_1 data_2 =
     column_loop
       (\<lambda>x y. np_power
                (np_exp (np_multiply (Fin (- sigma)) (np_power (np_subtract x y) 2))) d)
       data_1 data_2 [0..<shape1 data_1] (np_zeros (shape0 data_1) (shape0 data_2))"

definition AdditiveChi2_compute :: "ndarray \<Rightarrow> ndarray \<Rightarrow> error + ndarray" where
  "AdditiveChi2_compute data_1 data_2 =
     (if np_any_negative data_1 \<or> np_any_negative data_2
      then Inl (Exception ''Additive Chi^2 kernel requires data to be strictly positive!'')
      else column_loop
             (\<lambda>x y. np_divide (np_multiply (Fin 2) (np_multiply x y)) (np_add x y))
             data_1 data_2 [0..<shape1 data_1] (np_zeros (shape0 data_1) (shape0 data_2)))"

definition Chi2_init :: "real \<Rightarrow> real" where
  "Chi2_init gamma = gamma"

definition Chi2_compute :: "real \<Rightarrow> ndarray \<Rightarrow> ndarray \<Rightarrow> error + ndarray" where
  "Chi2_compute gamma data_1 data_2 =
     (if np_any_negative data_1 \<or> np_any_negative data_2
      then Inl (Exception ''Additive Chi^2 kernel requires data to be strictly positive!'')
      else
        (case column_loop
                (\<lambda>x y. np_divide (np_power (np_subtract x y) 2) (np_add x y))
                data_1 data_2 [0..<shape1 data_1] (np_zeros (shape0 data_1) (shape0 data_2)) of
           Inl e \<Rightarrow> Inl e
         | Inr kern \<Rightarrow> Inr (map_ndarray (\<lambda>x. np_exp (np_multiply (Fin (- gamma)) x)) kern)))"

definition Min_compute :: "ndarray \<Rightarrow> ndarray \<Rightarrow> error + ndarray" where
  "Min_compute data_1 data_2 =
     (if np_any_negative data_1 \<or> np_any_negative data_2
      then Inl (Exception ''Min kernel requires data to be strictly positive!'')
      else column_loop np_minimum
             data_1 data_2 [0..<shape1 data_1] (np_zeros (shape0 data_1) (shape0 data_2)))"

definition GeneralizedHistogramIntersection_init :: "real \<Rightarrow> real" where
  "GeneralizedHistogramIntersection_init alpha = alpha"

definition GeneralizedHistogramIntersection_compute :: "real \<Rightarrow> ndarray \<Rightarrow> ndarray \<Rightarrow> error + ndarray" where
  "GeneralizedHistogramIntersection_compute alpha data_1 data_2 =
     Min_compute (map_ndarray (\<lambda>x. np_power (np_abs x) alpha) data_1)
                 (map_ndarray (\<lambda>x. np_power (np_abs x) alpha) data_2)"

section \<open>Kernel instances\<close>

text \<open>
  An instance is its class and the fields that \<^verbatim>\<open>__init__\<close> assigns:
  \<^verbatim>\<open>_sigma\<close> (\<open>None\<close> while unset), \<^verbatim>\<open>_c\<close>, \<^verbatim>\<open>_d\<close>,
  \<^verbatim>\<open>_gamma\<close>, \<^verbatim>\<open>_alpha\<close>.
\<close>

datatype kernel =
    Exponential "real option"
  | Laplacian "real option"
  | RationalQuadratic real
  | InverseMultiquadratic real
  | CauchyKernel "real option"
  | TStudent real
  | ANOVA real real
  | AdditiveChi2
  | Chi2 real
  | MinKernel
  | GeneralizedHistogramIntersection real
  | Log real
  | Power real

text \<open>
  A call of \<^verbatim>\<open>_compute\<close> on an instance: the method of the instance's
  class runs (\<^verbatim>\<open>Laplacian\<close> inherits the one of \<^verbatim>\<open>Exponential\<close>); the
  instance after the call is returned beside the result.  The base class
  \<^verbatim>\<open>pykernels.base.Kernel\<close>, through which a caller reaches
  \<^verbatim>\<open>_compute\<close>, is not among the source files; what compute does is what
  \<^verbatim>\<open>_compute\<close> does.
\<close>

fun compute :: "kernel \<Rightarrow> ndarray \<Rightarrow> ndarray \<Rightarrow> kernel \<times> (error + ndarray)" where
  "compute (Exponential sigma) data_1 data_2 =
     (case Exponential_compute sigma data_1 data_2 of (sigma', r) \<Rightarrow> (Exponential sigma', r))"
| "compute (Laplacian sigma) data_1 data_2 =
     (case Exponential_compute sigma data_1 data_2 of (sigma', r) \<Rightarrow> (Laplacian sigma', r))"
| "compute (RationalQuadratic c) data_1 data_2 =
     (RationalQuadratic c, RationalQuadratic_compute c data_1 data_2)"
| "compute (InverseMultiquadratic c) data_1 data_2 =
     (InverseMultiquadratic c, InverseMultiquadratic_compute c data_1 data_2)"
| "compute (CauchyKernel sigma) data_1 data_2 =
     (case Cauchy_compute sigma data_1 data_2 of (sigma', r) \<Rightarrow> (CauchyKernel sigma', r))"
| "compute (TStudent d) data_1 data_2 = (TStudent d, TStudent_compute d data_1 data_2)"
| "compute (ANOVA sigma d) data_1 data_2 = (ANOVA sigma d, ANOVA_compute sigma d data_1 data_2)"
| "compute AdditiveChi2 data_1 data_2 = (AdditiveChi2, AdditiveChi2_compute data_1 data_2)"
| "compute (Chi2 gamma) data_1 data_2 = (Chi2 gamma, Chi2_compute gamma data_1 data_2)"
| "compute MinKernel data_1 data_2 = (MinKernel, Min_compute data_1 data_2)"
| "compute (GeneralizedHistogramIntersection alpha) data_1 data_2 =
     (GeneralizedHistogramIntersection alpha,
      GeneralizedHistogramIntersection_compute alpha data_1 data_2)"
| "compute (Log d) data_1 data_2 = (Log d, Log_compute d data_1 data_2)"
| "compute (Power d) data_1 data_2 = (Power d, Power_compute d data_1 data_2)"

text \<open>
  \<^verbatim>\<open>dim\<close>: \<^verbatim>\<open>np.inf\<close> is \<open>Some PInf\<close>, Python's \<^verbatim>\<open>None\<close> is
  \<open>None\<close>.
\<close>

fun dim :: "kernel \<Rightarrow> npfloat option" where
  "dim (Exponential sigma) = Some PInf"
| "dim (Laplacian sigma) = Some PInf"
| "dim (RationalQuadratic c) = None"
| "dim (InverseMultiquadratic c) = Some PInf"
| "dim (CauchyKernel sigma) = Some PInf"
| "dim (TStudent d) = None"
| "dim (ANOVA sigma d) = None"
| "dim AdditiveChi2 = None"
| "dim (Chi2 gamma) = None"
| "dim MinKernel = None"
| "dim (GeneralizedHistogramIntersection alpha) = None"
| "dim (Log d) = None"
| "dim (Power d) = None"

section \<open>Notions of the specification\<close>

text \<open>The entries of an array.\<close>

definition entries :: "ndarray \<Rightarrow> npfloat set" where
  "entries a = (\<Union>r \<in> set (rows a). set r)"

text \<open>
  The formulas of the specification's kernel table for a bandwidth derived from
  \<open>d\<close> feature columns, at a squared distance \<open>D\<close>: \<^verbatim>\<open>Exponential\<close> stores
  \<open>2 d\<^sup>2\<close>, \<^verbatim>\<open>Cauchy\<close> stores \<open>d\<^sup>2\<close>.
\<close>

definition Exponential_default_spec :: "real \<Rightarrow> real \<Rightarrow> real" where
  "Exponential_default_spec d D = exp (- sqrt D / (2 * d ^ 2))"

definition Cauchy_default_spec :: "real \<Rightarrow> real \<Rightarrow> real" where
  "Cauchy_default_spec d D = 1 / (1 + D / d ^ 2)"

text \<open>The specification's formula of \<^verbatim>\<open>Laplacian\<close>: \<open>exp(-sqrt(D) / sigma)\<close>.\<close>

definition Laplacian_spec :: "real \<Rightarrow> real \<Rightarrow> real" where
  "Laplacian_spec s D = exp (- sqrt D / s)"

text \<open>
  The instances whose \<^verbatim>\<open>_sigma\<close> is unset, the assignment of that field, and
  the instance after a sequence of calls of compute, each on the instance that
  the call before left.
\<close>

fun sigma_unset :: "kernel \<Rightarrow> bool" where
  "sigma_unset (Exponential sigma) = (sigma = None)"
| "sigma_unset (Laplacian sigma) = (sigma = None)"
| "sigma_unset (CauchyKernel sigma) = (sigma = None)"
| "sigma_unset k = False"

fun set_sigma :: "kernel \<Rightarrow> real \<Rightarrow> kernel" where
  "set_sigma (Exponential sigma) s = Exponential (Some s)"
| "set_sigma (Laplacian sigma) s = Laplacian (Some s)"
| "set_sigma (CauchyKernel sigma) s = CauchyKernel (Some s)"
| "set_sigma k s = k"

fun compute_calls :: "kernel \<Rightarrow> (ndarray \<times> ndarray) list \<Rightarrow> kernel" where
  "compute_calls k [] = k"
| "compute_calls k ((data_1, data_2) # calls) = compute_calls (fst (compute k data_1 data_2)) calls"

section \<open>Entries of the result of the column loop\<close>

text \<open>
  The entry that the loop over the columns \<open>ds\<close> leaves at a pair of rows \<open>a\<close>
  and \<open>b\<close>, from the entry \<open>x\<close> of the accumulator; an array of \<open>n1\<close> rows of
  \<open>n2\<close> entries.
\<close>

definition col_sum :: "(npfloat \<Rightarrow> npfloat \<Rightarrow> npfloat) \<Rightarrow> npfloat list \<Rightarrow> npfloat list \<Rightarrow> nat list \<Rightarrow> npfloat \<Rightarrow> npfloat" where
  "col_sum f a b ds x = foldl (\<lambda>acc d. np_add acc (f (a ! d) (b ! d))) x ds"

definition has_shape :: "ndarray \<Rightarrow> nat \<Rightarrow> nat \<Rightarrow> bool" where
  "has_shape a n1 n2 = (length (rows a) = n1 \<and> shape1 a = n2 \<and> (\<forall>i<n1. length (rows a ! i) = n2))"

text \<open>
  The inputs that a kernel accepts: \<^verbatim>\<open>AdditiveChi2\<close>, \<^verbatim>\<open>Chi2\<close> and
  \<^verbatim>\<open>Min\<close> want no negative entry.  Two results are transposed when both
  are matrices, of shapes \<open>(n1, n2)\<close> and \<open>(n2, n1)\<close>, and entry \<open>(i, j)\<close> of the
  first is entry \<open>(j, i)\<close> of the second.
\<close>

fun in_domain :: "kernel \<Rightarrow> ndarray \<Rightarrow> bool" where
  "in_domain AdditiveChi2 a = (\<not> np_any_negative a)"
| "in_domain (Chi2 gamma) a = (\<not> np_any_negative a)"
| "in_domain MinKernel a = (\<not> np_any_negative a)"
| "in_domain k a = True"

definition transposed :: "error + ndarray \<Rightarrow> error + ndarray \<Rightarrow> nat \<Rightarrow> nat \<Rightarrow> bool" where
  "transposed r1 r2 n1 n2 =
     (\<exists>K1 K2. r1 = Inr K1 \<and> r2 = Inr K2 \<and> has_shape K1 n1 n2 \<and> has_shape K2 n2 n1 \<and>
        (\<forall>i<n1. \<forall>j<n2. rows K1 ! i ! j = rows K2 ! j ! i))"

section \<open>The declared dimension\<close>

text \<open>
  Claim C10.  The dimension that a kernel declares depends on the class of the
  instance alone, neither on its fields nor on any data: \<^verbatim>\<open>Exponential\<close>,
  \<^verbatim>\<open>Laplacian\<close>, \<^verbatim>\<open>InverseMultiquadratic\<close> and \<^verbatim>\<open>Cauchy\<close> return
  the infinite sentinel \<^verbatim>\<open>np.inf\<close>; \<^verbatim>\<open>RationalQuadratic\<close>,
  \<^verbatim>\<open>TStudent\<close>, \<^verbatim>\<open>Log\<close>, \<^verbatim>\<open>Power\<close>, \<^verbatim>\<open>ANOVA\<close>,
  \<^verbatim>\<open>AdditiveChi2\<close>, \<^verbatim>\<open>Chi2\<close>, \<^verbatim>\<open>Min\<close> and
  \<^verbatim>\<open>GeneralizedHistogramIntersection\<close> return the unknown sentinel
  \<^verbatim>\<open>None\<close>.
\<close>

theorem dim_table:
  "dim (Exponential sigma) = Some PInf \<and> dim (Laplacian sigma) = Some PInf \<and>
   dim (InverseMultiquadratic c) = Some PInf \<and> dim (CauchyKernel sigma) = Some PInf \<and>
   dim (RationalQuadratic c) = None \<and> dim (TStudent d) = None \<and>
   dim (Log d) = None \<and> dim (Power d) = None \<and> dim (ANOVA s d) = None \<and>
   dim AdditiveChi2 = None \<and> dim (Chi2 gamma) = None \<and> dim MinKernel = None \<and>
   dim (GeneralizedHistogramIntersection alpha) = None"
  by simp

section \<open>The domain check of the positive kernels\<close>

lemma np_any_negative_iff:
  "np_any_negative a \<longleftrightarrow> (\<exists>x \<in> entries a. np_less x (Fin 0))"
  by (auto simp: np_any_negative_def entries_def list_ex_iff)

text \<open>The loop over the columns raises nothing but the index error of a missing column.\<close>

lemma column_loop_error:
  "column_loop f data_1 data_2 ds kern = Inl e \<Longrightarrow> e = IndexError"
  by (induction ds arbitrary: kern) (auto simp: column_def split: sum.splits if_splits)

text \<open>
  Claim C2.  For every pair of inputs, whatever their shapes, each of
  \<^verbatim>\<open>AdditiveChi2\<close>, \<^verbatim>\<open>Chi2\<close> and \<^verbatim>\<open>Min\<close> raises its domain error
  (the \<^verbatim>\<open>Exception\<close> of its first statement) if and only if some entry of
  one of the two inputs is negative.  The result of a call is either an error or
  a matrix, so a call that raises returns no matrix, and the loop over the
  columns never raises the domain error: it is raised before the loop.
\<close>

theorem domain_error_iff:
  "((\<exists>m. AdditiveChi2_compute data_1 data_2 = Inl (Exception m)) \<longleftrightarrow>
      (\<exists>x \<in> entries data_1 \<union> entries data_2. np_less x (Fin 0))) \<and>
   ((\<exists>m. Chi2_compute gamma data_1 data_2 = Inl (Exception m)) \<longleftrightarrow>
      (\<exists>x \<in> entries data_1 \<union> entries data_2. np_less x (Fin 0))) \<and>
   ((\<exists>m. Min_compute data_1 data_2 = Inl (Exception m)) \<longleftrightarrow>
      (\<exists>x \<in> entries data_1 \<union> entries data_2. np_less x (Fin 0)))"
  by (auto simp: AdditiveChi2_compute_def Chi2_compute_def Min_compute_def np_any_negative_iff
      dest: column_loop_error split: sum.splits)

theorem domain_error_iff_witness:
  "(\<exists>m. AdditiveChi2_compute \<lparr>shape1 = 2, rows = [[Fin (- 1), Fin 2]]\<rparr>
          \<lparr>shape1 = 2, rows = [[Fin 1, Fin 1]]\<rparr> = Inl (Exception m)) \<and>
   (\<exists>m. Chi2_compute 1 \<lparr>shape1 = 2, rows = [[Fin (- 1), Fin 2]]\<rparr>
          \<lparr>shape1 = 2, rows = [[Fin 1, Fin 1]]\<rparr> = Inl (Exception m)) \<and>
   (\<exists>m. Min_compute \<lparr>shape1 = 2, rows = [[Fin (- 1), Fin 2]]\<rparr>
          \<lparr>shape1 = 2, rows = [[Fin 1, Fin 1]]\<rparr> = Inl (Exception m)) \<and>
   \<not> (\<exists>m. Min_compute \<lparr>shape1 = 2, rows = [[Fin 2, Fin 3]]\<rparr>
          \<lparr>shape1 = 2, rows = [[Fin 1, Fin 1]]\<rparr> = Inl (Exception m))"
  using domain_error_iff [of "\<lparr>shape1 = 2, rows = [[Fin (- 1), Fin 2]]\<rparr>"
          "\<lparr>shape1 = 2, rows = [[Fin 1, Fin 1]]\<rparr>" 1]
        domain_error_iff [of "\<lparr>shape1 = 2, rows = [[Fin 2, Fin 3]]\<rparr>"
          "\<lparr>shape1 = 2, rows = [[Fin 1, Fin 1]]\<rparr>" 1]
  by (simp add: entries_def)

section \<open>The exponential family and its lazy default\<close>

lemma sqrt_25: "sqrt 25 = 5"
  by (rule real_sqrt_unique) simp_all

text \<open>The rows \<open>(0, 0)\<close> and \<open>(3, 4)\<close> are at squared distance 25.\<close>

lemma euclid_example:
  "euclidean_dist_matrix \<lparr>shape1 = 2, rows = [[Fin 0, Fin 0]]\<rparr>
     \<lparr>shape1 = 2, rows = [[Fin 3, Fin 4]]\<rparr> = Inr \<lparr>shape1 = 1, rows = [[Fin 25]]\<rparr>"
  by (simp add: euclidean_dist_matrix_def shape0_def sq_dist_def sq_norm_def dot_def np_sum_def
      np_subtract_def)

text \<open>
  Claim C1 as the specification states it fails.  On two feature columns and a
  squared distance of 25, an \<^verbatim>\<open>Exponential\<close> kernel with sigma unset returns
  \<open>exp(-5/2)\<close>, not \<open>exp(-5/(2 2\<^sup>2))\<close>, and a \<^verbatim>\<open>Cauchy\<close> kernel with
  sigma unset returns \<open>1/(1 + 25/2) = 2/27\<close>, not \<open>1/(1 + 25/2\<^sup>2)\<close>.
\<close>

theorem lazy_default_counterexample:
  "snd (compute (Exponential (Exponential_init None))
          \<lparr>shape1 = 2, rows = [[Fin 0, Fin 0]]\<rparr> \<lparr>shape1 = 2, rows = [[Fin 3, Fin 4]]\<rparr>)
     = Inr \<lparr>shape1 = 1, rows = [[Fin (exp (- 5 / 2))]]\<rparr> \<and>
   exp (- 5 / 2) \<noteq> Exponential_default_spec 2 25 \<and>
   snd (compute (CauchyKernel (Cauchy_init None))
          \<lparr>shape1 = 2, rows = [[Fin 0, Fin 0]]\<rparr> \<lparr>shape1 = 2, rows = [[Fin 3, Fin 4]]\<rparr>)
     = Inr \<lparr>shape1 = 1, rows = [[Fin (2 / 27)]]\<rparr> \<and>
   2 / 27 \<noteq> Cauchy_default_spec 2 25"
  by (simp add: Exponential_init_def Cauchy_init_def Exponential_compute_def Cauchy_compute_def
      euclid_example map_ndarray_def Let_def sqrt_25 Exponential_default_spec_def
      Cauchy_default_spec_def)

text \<open>
  Claim C1, amended.  For an \<^verbatim>\<open>Exponential\<close> or a \<^verbatim>\<open>Cauchy\<close> kernel
  constructed with sigma unset, the first call of compute stores the number \<open>d\<close>
  of feature columns of the first input in the field as it is, with no transform,
  and divides by it: on inputs with a distance matrix \<open>D\<close> the result is
  \<open>exp(-sqrt(D) / d)\<close>, respectively \<open>1 / (1 + D / d)\<close>, elementwise (for a
  positive \<open>d\<close> and a non-negative finite distance these are the real numbers of
  that formula).
\<close>

theorem lazy_default_raw:
  assumes "euclidean_dist_matrix data_1 data_2 = Inr D"
  shows "compute (Exponential (Exponential_init None)) data_1 data_2 =
           (Exponential (Some (real (shape1 data_1))),
            Inr (map_ndarray
                  (\<lambda>x. np_exp (np_divide (np_negative (np_sqrt x)) (Fin (real (shape1 data_1)))))
                  D)) \<and>
         compute (CauchyKernel (Cauchy_init None)) data_1 data_2 =
           (CauchyKernel (Some (real (shape1 data_1))),
            Inr (map_ndarray
                  (\<lambda>x. np_divide (Fin 1) (np_add (Fin 1) (np_divide x (Fin (real (shape1 data_1))))))
                  D)) \<and>
         (\<forall>v d. 0 \<le> v \<and> 0 < d \<longrightarrow>
            np_exp (np_divide (np_negative (np_sqrt (Fin v))) (Fin d)) = Fin (exp (- sqrt v / d)) \<and>
            np_divide (Fin 1) (np_add (Fin 1) (np_divide (Fin v) (Fin d))) = Fin (1 / (1 + v / d)))"
proof -
  have pos: "1 + v / d \<noteq> 0" if "0 \<le> v" "0 < d" for v d :: real
  proof -
    have "0 \<le> v / d" using that by simp
    then show ?thesis by linarith
  qed
  show ?thesis
    using assms pos
    by (simp add: Exponential_init_def Cauchy_init_def Exponential_compute_def Cauchy_compute_def
        Let_def)
qed

theorem lazy_default_raw_witness:
  "compute (Exponential (Exponential_init None))
     \<lparr>shape1 = 2, rows = [[Fin 0, Fin 0]]\<rparr> \<lparr>shape1 = 2, rows = [[Fin 3, Fin 4]]\<rparr> =
     (Exponential (Some 2), Inr \<lparr>shape1 = 1, rows = [[Fin (exp (- 5 / 2))]]\<rparr>) \<and>
   compute (CauchyKernel (Cauchy_init None))
     \<lparr>shape1 = 2, rows = [[Fin 0, Fin 0]]\<rparr> \<lparr>shape1 = 2, rows = [[Fin 3, Fin 4]]\<rparr> =
     (CauchyKernel (Some 2), Inr \<lparr>shape1 = 1, rows = [[Fin (1 / (1 + 25 / 2))]]\<rparr>)"
proof -
  note t = lazy_default_raw [OF euclid_example]
  have e: "np_exp (np_divide (np_negative (np_sqrt (Fin 25))) (Fin 2)) = Fin (exp (- sqrt 25 / 2))"
    and c: "np_divide (Fin 1) (np_add (Fin 1) (np_divide (Fin 25) (Fin 2))) = Fin (1 / (1 + 25 / 2))"
    using t [THEN conjunct2, THEN conjunct2, rule_format, of 25 2] by simp_all
  show ?thesis
    using t [THEN conjunct1] t [THEN conjunct2, THEN conjunct1] e c
    by (simp add: map_ndarray_def sqrt_25)
qed

text \<open>
  Claim C3.  \<^verbatim>\<open>Laplacian\<close> stores an explicitly supplied sigma \<open>s\<close> as it
  is and runs the compute routine of \<^verbatim>\<open>Exponential\<close> on it: the result of
  \<^verbatim>\<open>Laplacian(s)\<close> is the result of that routine for the stored parameter
  \<open>s\<close>, which on inputs with a distance matrix \<open>D\<close> is \<open>exp(-sqrt(D) / s)\<close>
  elementwise (for \<open>s\<close> other than zero and a non-negative finite distance, the
  real number of the specification's formula).
\<close>

theorem Laplacian_raw_sigma:
  "compute (Laplacian (Laplacian_init (Some s))) data_1 data_2 =
     (Laplacian (Some s), snd (Exponential_compute (Some s) data_1 data_2)) \<and>
   (\<forall>D. euclidean_dist_matrix data_1 data_2 = Inr D \<longrightarrow>
      snd (Exponential_compute (Some s) data_1 data_2) =
        Inr (map_ndarray (\<lambda>x. np_exp (np_divide (np_negative (np_sqrt x)) (Fin s))) D)) \<and>
   (\<forall>v. 0 \<le> v \<and> s \<noteq> 0 \<longrightarrow>
      np_exp (np_divide (np_negative (np_sqrt (Fin v))) (Fin s)) = Fin (Laplacian_spec s v))"
  by (simp add: Laplacian_init_def Exponential_compute_def Laplacian_spec_def)

theorem Laplacian_raw_sigma_witness:
  "compute (Laplacian (Laplacian_init (Some 5)))
     \<lparr>shape1 = 2, rows = [[Fin 0, Fin 0]]\<rparr> \<lparr>shape1 = 2, rows = [[Fin 3, Fin 4]]\<rparr> =
     (Laplacian (Some 5), Inr \<lparr>shape1 = 1, rows = [[Fin (Laplacian_spec 5 25)]]\<rparr>)"
proof -
  note t = Laplacian_raw_sigma [of 5 "\<lparr>shape1 = 2, rows = [[Fin 0, Fin 0]]\<rparr>"
      "\<lparr>shape1 = 2, rows = [[Fin 3, Fin 4]]\<rparr>"]
  have e: "np_exp (np_divide (np_negative (np_sqrt (Fin 25))) (Fin 5)) = Fin (Laplacian_spec 5 25)"
    using t [THEN conjunct2, THEN conjunct2, rule_format, of 25] by simp
  have r: "snd (Exponential_compute (Some 5) \<lparr>shape1 = 2, rows = [[Fin 0, Fin 0]]\<rparr>
                \<lparr>shape1 = 2, rows = [[Fin 3, Fin 4]]\<rparr>) =
           Inr (map_ndarray (\<lambda>x. np_exp (np_divide (np_negative (np_sqrt x)) (Fin 5)))
                 \<lparr>shape1 = 1, rows = [[Fin 25]]\<rparr>)"
    using t [THEN conjunct2, THEN conjunct1, rule_format, OF euclid_example] .
  show ?thesis
    using t [THEN conjunct1] r e by (simp add: map_ndarray_def)
qed

text \<open>
  Claim C4 as the specification states it fails: a \<^verbatim>\<open>Laplacian\<close> kernel
  constructed with sigma unset does not keep sigma unset.  After a call of
  compute on inputs of two feature columns its sigma is 2.
\<close>

theorem Laplacian_unset_counterexample:
  "fst (compute (Laplacian (Laplacian_init None))
          \<lparr>shape1 = 2, rows = [[Fin 0, Fin 0]]\<rparr> \<lparr>shape1 = 2, rows = [[Fin 3, Fin 4]]\<rparr>)
     = Laplacian (Some 2) \<and>
   Laplacian (Some 2) \<noteq> Laplacian None"
  by (simp add: Laplacian_init_def Exponential_compute_def Let_def)

text \<open>
  Claim C4, amended.  A \<^verbatim>\<open>Laplacian\<close> kernel constructed with sigma unset
  inherits the lazy default of \<^verbatim>\<open>Exponential\<close>: a call of compute sets its
  sigma to the number of feature columns of the first input and computes with it
  as the stored parameter, so its result is the one of an \<^verbatim>\<open>Exponential\<close>
  kernel constructed with sigma unset.
\<close>

theorem Laplacian_unset_default:
  "compute (Laplacian (Laplacian_init None)) data_1 data_2 =
     (Laplacian (Some (real (shape1 data_1))),
      snd (Exponential_compute (Some (real (shape1 data_1))) data_1 data_2)) \<and>
   snd (compute (Laplacian (Laplacian_init None)) data_1 data_2) =
     snd (compute (Exponential (Exponential_init None)) data_1 data_2)"
  by (simp add: Laplacian_init_def Exponential_init_def Exponential_compute_def Let_def)

section \<open>Effects of compute on the instance\<close>

lemma compute_set: "\<not> sigma_unset k \<Longrightarrow> fst (compute k data_1 data_2) = k"
  by (cases k) (auto simp: Exponential_compute_def Cauchy_compute_def Let_def)

lemma compute_unset:
  "sigma_unset k \<Longrightarrow> fst (compute k data_1 data_2) = set_sigma k (real (shape1 data_1))"
  by (cases k) (auto simp: Exponential_compute_def Cauchy_compute_def Let_def)

lemma set_sigma_set: "sigma_unset k \<Longrightarrow> \<not> sigma_unset (set_sigma k s)"
  by (cases k) auto

lemma compute_calls_set: "\<not> sigma_unset k \<Longrightarrow> compute_calls k calls = k"
  by (induction calls arbitrary: k) (auto simp: compute_set)

text \<open>
  Claim C8.  A call of compute leaves every field of the instance as it was,
  except on an \<^verbatim>\<open>Exponential\<close>, \<^verbatim>\<open>Laplacian\<close> or \<^verbatim>\<open>Cauchy\<close>
  instance whose sigma is unset: there the call assigns the number of feature
  columns of its first input to sigma, after which sigma is set.  Hence after
  any sequence of calls the instance is the one that the first call left: the
  default is written once, and no later call changes a field.  The fields hold
  numbers only; the one value that a call writes is a column count, never an
  input array.
\<close>

theorem stateless_but_lazy_default:
  "(\<not> sigma_unset k \<longrightarrow> fst (compute k data_1 data_2) = k) \<and>
   (sigma_unset k \<longrightarrow>
      fst (compute k data_1 data_2) = set_sigma k (real (shape1 data_1)) \<and>
      \<not> sigma_unset (fst (compute k data_1 data_2))) \<and>
   compute_calls k ((data_1, data_2) # calls) = fst (compute k data_1 data_2)"
proof -
  have "\<not> sigma_unset (fst (compute k data_1 data_2))"
    by (cases "sigma_unset k") (simp_all add: compute_set compute_unset set_sigma_set)
  then show ?thesis
    by (simp add: compute_set compute_unset compute_calls_set set_sigma_set)
qed

theorem stateless_but_lazy_default_witness:
  "fst (compute (RationalQuadratic 1) \<lparr>shape1 = 2, rows = [[Fin 0, Fin 0]]\<rparr>
          \<lparr>shape1 = 2, rows = [[Fin 3, Fin 4]]\<rparr>) = RationalQuadratic 1 \<and>
   fst (compute (CauchyKernel None) \<lparr>shape1 = 2, rows = [[Fin 0, Fin 0]]\<rparr>
          \<lparr>shape1 = 2, rows = [[Fin 3, Fin 4]]\<rparr>) = CauchyKernel (Some 2) \<and>
   compute_calls (Exponential None)
     [(\<lparr>shape1 = 2, rows = [[Fin 0, Fin 0]]\<rparr>, \<lparr>shape1 = 2, rows = [[Fin 3, Fin 4]]\<rparr>),
      (\<lparr>shape1 = 1, rows = [[Fin 7]]\<rparr>, \<lparr>shape1 = 1, rows = [[Fin 1]]\<rparr>)] =
     Exponential (Some 2)"
proof -
  let ?A = "\<lparr>shape1 = 2, rows = [[Fin 0, Fin 0]]\<rparr>"
  let ?B = "\<lparr>shape1 = 2, rows = [[Fin 3, Fin 4]]\<rparr>"
  have 1: "fst (compute (RationalQuadratic 1) ?A ?B) = RationalQuadratic 1"
    using stateless_but_lazy_default [of "RationalQuadratic 1" ?A ?B "[]"] by simp
  have 2: "fst (compute (CauchyKernel None) ?A ?B) = CauchyKernel (Some 2)"
    using stateless_but_lazy_default [of "CauchyKernel None" ?A ?B "[]"] by simp
  have 3: "fst (compute (Exponential None) ?A ?B) = Exponential (Some 2)"
    using stateless_but_lazy_default [of "Exponential None" ?A ?B "[]"] by simp
  have 4: "compute_calls (Exponential None)
       [(?A, ?B), (\<lparr>shape1 = 1, rows = [[Fin 7]]\<rparr>, \<lparr>shape1 = 1, rows = [[Fin 1]]\<rparr>)] =
     fst (compute (Exponential None) ?A ?B)"
    using stateless_but_lazy_default [of "Exponential None" ?A ?B
        "[(\<lparr>shape1 = 1, rows = [[Fin 7]]\<rparr>, \<lparr>shape1 = 1, rows = [[Fin 1]]\<rparr>)]"]
    by (rule conjunct2 [THEN conjunct2])
  show ?thesis using 1 2 3 4 by simp
qed

section \<open>The power kernel\<close>

text \<open>The power of a finite number to a natural number is the usual one, at every sign.\<close>

lemma is_integer_nat: "is_integer (real n)"
  by (simp add: is_integer_def)

lemma is_odd_integer_nat: "is_odd_integer (real n) \<longleftrightarrow> odd n"
  by (simp add: is_odd_integer_def is_integer_def)

lemma np_power_nat: "np_power (Fin v) (real n) = Fin (v ^ n)"
proof (cases "n = 0")
  case True
  then show ?thesis by simp
next
  case n: False
  consider "0 < v" | "v = 0" | "v < 0" by linarith
  then show ?thesis
  proof cases
    case 1
    then show ?thesis using n by (simp add: powr_realpow)
  next
    case 2
    then show ?thesis using n by simp
  next
    case 3
    then have a: "\<bar>v\<bar> powr real n = (- v) ^ n"
      by (simp add: powr_realpow)
    show ?thesis
    proof (cases "odd n")
      case True
      then show ?thesis using 3 n a by (simp add: is_odd_integer_nat)
    next
      case False
      then show ?thesis using 3 n a by (simp add: is_odd_integer_nat is_integer_nat)
    qed
  qed
qed

text \<open>
  Claim C5.  \<^verbatim>\<open>Power(d=2)\<close> on the rows \<open>(0, 0)\<close> and \<open>(3, 4)\<close>, at squared
  distance 25, returns the one-by-one matrix of \<open>-25\<^sup>2 / 2 = -312.5\<close>; for all
  inputs with a distance matrix \<open>D\<close>, \<^verbatim>\<open>Power(d)\<close> returns \<open>-D\<^sup>d / 2\<close>
  elementwise (the real number of that formula for a positive finite distance,
  and for every finite distance when \<open>d\<close> is a natural number).
\<close>

theorem Power_formula:
  "compute (Power (Power_init 2)) \<lparr>shape1 = 2, rows = [[Fin 0, Fin 0]]\<rparr>
      \<lparr>shape1 = 2, rows = [[Fin 3, Fin 4]]\<rparr> =
     (Power 2, Inr \<lparr>shape1 = 1, rows = [[Fin (- 312.5)]]\<rparr>) \<and>
   (\<forall>D. euclidean_dist_matrix data_1 data_2 = Inr D \<longrightarrow>
      compute (Power (Power_init d)) data_1 data_2 =
        (Power d, Inr (map_ndarray (\<lambda>x. np_divide (np_negative (np_power x d)) (Fin 2)) D))) \<and>
   (\<forall>v. 0 < v \<longrightarrow>
      np_divide (np_negative (np_power (Fin v) d)) (Fin 2) = Fin (- (v powr d) / 2)) \<and>
   (\<forall>v n. np_divide (np_negative (np_power (Fin v) (real n))) (Fin 2) = Fin (- (v ^ n) / 2))"
proof -
  have "np_power (Fin 25) 2 = Fin 625"
    using np_power_nat [of 25 2] by simp
  then have "compute (Power (Power_init 2)) \<lparr>shape1 = 2, rows = [[Fin 0, Fin 0]]\<rparr>
      \<lparr>shape1 = 2, rows = [[Fin 3, Fin 4]]\<rparr> =
     (Power 2, Inr \<lparr>shape1 = 1, rows = [[Fin (- 312.5)]]\<rparr>)"
    by (simp add: Power_init_def Power_compute_def euclid_example map_ndarray_def)
  moreover have "\<forall>v n. np_divide (np_negative (np_power (Fin v) (real n))) (Fin 2) = Fin (- (v ^ n) / 2)"
    by (simp only: np_power_nat) simp
  moreover have "\<forall>v. 0 < v \<longrightarrow>
      np_divide (np_negative (np_power (Fin v) d)) (Fin 2) = Fin (- (v powr d) / 2)"
    by simp
  ultimately show ?thesis
    by (simp add: Power_init_def Power_compute_def)
qed

theorem Power_formula_witness:
  "compute (Power (Power_init 3)) \<lparr>shape1 = 2, rows = [[Fin 0, Fin 0]]\<rparr>
      \<lparr>shape1 = 2, rows = [[Fin 3, Fin 4]]\<rparr> =
     (Power 3, Inr \<lparr>shape1 = 1, rows = [[Fin (- (25 ^ 3) / 2)]]\<rparr>)"
proof -
  note t = Power_formula [of "\<lparr>shape1 = 2, rows = [[Fin 0, Fin 0]]\<rparr>"
      "\<lparr>shape1 = 2, rows = [[Fin 3, Fin 4]]\<rparr>" 3]
  have e: "np_divide (np_negative (np_power (Fin 25) (real 3))) (Fin 2) = Fin (- (25 ^ 3) / 2)"
    using t [THEN conjunct2, THEN conjunct2, THEN conjunct2, rule_format, of 25 3] .
  have r: "compute (Power (Power_init 3)) \<lparr>shape1 = 2, rows = [[Fin 0, Fin 0]]\<rparr>
      \<lparr>shape1 = 2, rows = [[Fin 3, Fin 4]]\<rparr> =
     (Power 3, Inr (map_ndarray (\<lambda>x. np_divide (np_negative (np_power x 3)) (Fin 2))
        \<lparr>shape1 = 1, rows = [[Fin 25]]\<rparr>))"
    using t [THEN conjunct2, THEN conjunct1, rule_format, OF euclid_example] .
  show ?thesis
    using r e by (simp add: map_ndarray_def Power_init_def)
qed

section \<open>The generalized histogram intersection\<close>

text \<open>A power of an absolute value is never negative.\<close>

lemma np_less_power_abs: "\<not> np_less (np_power (np_abs x) alpha) (Fin 0)"
  by (cases x) (auto simp: not_less)

lemma not_negative_power_abs:
  "\<not> np_any_negative (map_ndarray (\<lambda>x. np_power (np_abs x) alpha) a)"
  by (simp add: np_any_negative_def map_ndarray_def list_ex_iff np_less_power_abs)


section \<open>What the column loop computes\<close>

lemma iadd_broadcast:
  assumes "has_shape kern (shape0 data_1) (shape0 data_2)"
  shows "has_shape (iadd kern (broadcast f (map (\<lambda>r. r ! d) (rows data_1)) (map (\<lambda>r. r ! d) (rows data_2))))
           (shape0 data_1) (shape0 data_2) \<and>
         (\<forall>i<shape0 data_1. \<forall>j<shape0 data_2.
            rows (iadd kern (broadcast f (map (\<lambda>r. r ! d) (rows data_1)) (map (\<lambda>r. r ! d) (rows data_2)))) ! i ! j
              = np_add (rows kern ! i ! j) (f (rows data_1 ! i ! d) (rows data_2 ! j ! d)))"
  using assms by (simp add: has_shape_def iadd_def broadcast_def shape0_def)

lemma column_loop_entries:
  assumes "\<forall>d\<in>set ds. d < shape1 data_1 \<and> d < shape1 data_2"
    and "has_shape kern (shape0 data_1) (shape0 data_2)"
  shows "\<exists>K. column_loop f data_1 data_2 ds kern = Inr K \<and>
           has_shape K (shape0 data_1) (shape0 data_2) \<and>
           (\<forall>i<shape0 data_1. \<forall>j<shape0 data_2.
              rows K ! i ! j = col_sum f (rows data_1 ! i) (rows data_2 ! j) ds (rows kern ! i ! j))"
  using assms
proof (induction ds arbitrary: kern)
  case Nil
  then show ?case by (simp add: col_sum_def)
next
  case (Cons d ds)
  let ?k = "iadd kern (broadcast f (map (\<lambda>r. r ! d) (rows data_1)) (map (\<lambda>r. r ! d) (rows data_2)))"
  from Cons.prems have d: "d < shape1 data_1" "d < shape1 data_2"
    and ds: "\<forall>d\<in>set ds. d < shape1 data_1 \<and> d < shape1 data_2" by simp_all
  note step = iadd_broadcast [OF Cons.prems(2), of f d]
  from Cons.IH [OF ds step [THEN conjunct1]]
  obtain K where K: "column_loop f data_1 data_2 ds ?k = Inr K"
    "has_shape K (shape0 data_1) (shape0 data_2)"
    "\<forall>i<shape0 data_1. \<forall>j<shape0 data_2.
        rows K ! i ! j = col_sum f (rows data_1 ! i) (rows data_2 ! j) ds (rows ?k ! i ! j)"
    by blast
  have "column_loop f data_1 data_2 (d # ds) kern = Inr K"
    using d K(1) by (simp add: column_def)
  moreover have "\<forall>i<shape0 data_1. \<forall>j<shape0 data_2.
      rows K ! i ! j = col_sum f (rows data_1 ! i) (rows data_2 ! j) (d # ds) (rows kern ! i ! j)"
    using K(3) step [THEN conjunct2] by (simp add: col_sum_def)
  ultimately show ?case using K(2) by blast
qed

lemma np_zeros_shape: "has_shape (np_zeros n1 n2) n1 n2"
  by (simp add: has_shape_def np_zeros_def)

lemma np_zeros_entry: "i < n1 \<Longrightarrow> j < n2 \<Longrightarrow> rows (np_zeros n1 n2) ! i ! j = Fin 0"
  by (simp add: np_zeros_def)

lemma column_loop_from_zeros:
  assumes "shape1 data_1 \<le> shape1 data_2"
  shows "\<exists>K. column_loop f data_1 data_2 [0..<shape1 data_1] (np_zeros (shape0 data_1) (shape0 data_2)) = Inr K \<and>
           has_shape K (shape0 data_1) (shape0 data_2) \<and>
           (\<forall>i<shape0 data_1. \<forall>j<shape0 data_2.
              rows K ! i ! j = col_sum f (rows data_1 ! i) (rows data_2 ! j) [0..<shape1 data_1] (Fin 0))"
proof -
  have "\<forall>d\<in>set [0..<shape1 data_1]. d < shape1 data_1 \<and> d < shape1 data_2"
    using assms by simp
  from column_loop_entries [OF this np_zeros_shape, of f]
  show ?thesis by (simp add: np_zeros_entry)
qed

section \<open>Division by zero in the chi-squared kernels\<close>

lemma np_add_NaN_right: "np_add x NaN = NaN"
  by (cases x) simp_all

lemma np_multiply_NaN_right: "np_multiply x NaN = NaN"
  by (cases x) simp_all

lemma col_sum_NaN_start: "col_sum f a b ds NaN = NaN"
  by (induction ds) (simp_all add: col_sum_def)

lemma col_sum_NaN:
  "k \<in> set ds \<Longrightarrow> f (a ! k) (b ! k) = NaN \<Longrightarrow> col_sum f a b ds x = NaN"
proof (induction ds arbitrary: x)
  case Nil
  then show ?case by simp
next
  case (Cons d ds)
  have unfold: "col_sum f a b (d # ds) x = col_sum f a b ds (np_add x (f (a ! d) (b ! d)))"
    by (simp add: col_sum_def)
  show ?case
  proof (cases "k = d")
    case True
    then show ?thesis
      using Cons.prems(2) by (simp add: unfold np_add_NaN_right col_sum_NaN_start)
  next
    case False
    then have "k \<in> set ds" using Cons.prems(1) by simp
    then show ?thesis
      using Cons.IH Cons.prems(2) by (simp add: unfold)
  qed
qed

text \<open>
  Claim C9.  Passing the check of \<^verbatim>\<open>AdditiveChi2\<close> or \<^verbatim>\<open>Chi2\<close> does
  not make the result finite.  For inputs with no negative entry and the same
  number of columns, whenever row \<open>i\<close> of the first and row \<open>j\<close> of the second
  are both zero in some column, the division by \<open>x + y\<close> in that column is zero
  by zero: no error is raised, a matrix is returned, and its entry \<open>(i, j)\<close> is
  not a number.
\<close>

theorem chi2_zero_columns_nan:
  assumes "wf_ndarray data_1" and "wf_ndarray data_2"
    and "shape1 data_1 = shape1 data_2"
    and "\<not> np_any_negative data_1" and "\<not> np_any_negative data_2"
    and "i < shape0 data_1" and "j < shape0 data_2" and "k < shape1 data_1"
    and "rows data_1 ! i ! k = Fin 0" and "rows data_2 ! j ! k = Fin 0"
  shows "(\<exists>K. AdditiveChi2_compute data_1 data_2 = Inr K \<and> rows K ! i ! j = NaN) \<and>
         (\<exists>K. Chi2_compute gamma data_1 data_2 = Inr K \<and> rows K ! i ! j = NaN)"
proof -
  let ?ds = "[0..<shape1 data_1]"
  let ?z = "np_zeros (shape0 data_1) (shape0 data_2)"
  let ?f = "\<lambda>x y. np_divide (np_multiply (Fin 2) (np_multiply x y)) (np_add x y)"
  let ?g = "\<lambda>x y. np_divide (np_power (np_subtract x y) 2) (np_add x y)"
  have le: "shape1 data_1 \<le> shape1 data_2" using assms(3) by simp
  have k: "k \<in> set ?ds" using assms(8) by simp
  have f0: "?f (rows data_1 ! i ! k) (rows data_2 ! j ! k) = NaN"
    using assms(9,10) by simp
  have g0: "?g (rows data_1 ! i ! k) (rows data_2 ! j ! k) = NaN"
    using assms(9,10) by (simp add: np_subtract_def)
  from column_loop_from_zeros [OF le, of ?f]
  obtain K where K: "column_loop ?f data_1 data_2 ?ds ?z = Inr K"
    "rows K ! i ! j = col_sum ?f (rows data_1 ! i) (rows data_2 ! j) ?ds (Fin 0)"
    using assms(6,7) by blast
  have "AdditiveChi2_compute data_1 data_2 = Inr K"
    using K(1) assms(4,5) by (simp add: AdditiveChi2_compute_def)
  moreover have "rows K ! i ! j = NaN"
    unfolding K(2) using k f0 by (rule col_sum_NaN)
  ultimately have A: "\<exists>K. AdditiveChi2_compute data_1 data_2 = Inr K \<and> rows K ! i ! j = NaN"
    by blast
  from column_loop_from_zeros [OF le, of ?g]
  obtain L where L: "column_loop ?g data_1 data_2 ?ds ?z = Inr L"
    "has_shape L (shape0 data_1) (shape0 data_2)"
    "rows L ! i ! j = col_sum ?g (rows data_1 ! i) (rows data_2 ! j) ?ds (Fin 0)"
    using assms(6,7) by blast
  let ?M = "map_ndarray (\<lambda>x. np_exp (np_multiply (Fin (- gamma)) x)) L"
  have "Chi2_compute gamma data_1 data_2 = Inr ?M"
    using L(1) assms(4,5) by (simp add: Chi2_compute_def)
  moreover have "rows L ! i ! j = NaN"
    unfolding L(3) using k g0 by (rule col_sum_NaN)
  then have "rows ?M ! i ! j = NaN"
    using L(2) assms(6,7) by (simp add: map_ndarray_def has_shape_def np_multiply_NaN_right)
  ultimately have B: "\<exists>K. Chi2_compute gamma data_1 data_2 = Inr K \<and> rows K ! i ! j = NaN"
    by blast
  show ?thesis using A B by simp
qed

theorem chi2_zero_columns_nan_witness:
  "AdditiveChi2_compute \<lparr>shape1 = 1, rows = [[Fin 0]]\<rparr> \<lparr>shape1 = 1, rows = [[Fin 0]]\<rparr> =
     Inr \<lparr>shape1 = 1, rows = [[NaN]]\<rparr> \<and>
   Chi2_compute 1 \<lparr>shape1 = 1, rows = [[Fin 0]]\<rparr> \<lparr>shape1 = 1, rows = [[Fin 0]]\<rparr> =
     Inr \<lparr>shape1 = 1, rows = [[NaN]]\<rparr> \<and>
   (\<exists>K. AdditiveChi2_compute \<lparr>shape1 = 2, rows = [[Fin 1, Fin 0]]\<rparr>
          \<lparr>shape1 = 2, rows = [[Fin 5, Fin 6], [Fin 2, Fin 0]]\<rparr> = Inr K \<and>
        rows K ! 0 ! 1 = NaN)"
proof -
  let ?Z = "\<lparr>shape1 = 1, rows = [[Fin 0]]\<rparr>"
  let ?A = "\<lparr>shape1 = 2, rows = [[Fin 1, Fin 0]]\<rparr>"
  let ?B = "\<lparr>shape1 = 2, rows = [[Fin 5, Fin 6], [Fin 2, Fin 0]]\<rparr>"
  have 1: "\<exists>K. AdditiveChi2_compute ?A ?B = Inr K \<and> rows K ! 0 ! 1 = NaN"
    using chi2_zero_columns_nan [of ?A ?B 0 1 1 1]
    by (simp add: wf_ndarray_def np_any_negative_def shape0_def)
  have 2: "AdditiveChi2_compute ?Z ?Z = Inr \<lparr>shape1 = 1, rows = [[NaN]]\<rparr>"
    by (simp add: AdditiveChi2_compute_def np_any_negative_def column_def broadcast_def iadd_def
        np_zeros_def shape0_def)
  have 3: "Chi2_compute 1 ?Z ?Z = Inr \<lparr>shape1 = 1, rows = [[NaN]]\<rparr>"
    by (simp add: Chi2_compute_def np_any_negative_def column_def broadcast_def iadd_def
        np_zeros_def shape0_def np_subtract_def map_ndarray_def)
  show ?thesis using 1 2 3 by simp
qed

section \<open>Symmetry\<close>

text \<open>The operations that the kernels apply to a pair of entries are symmetric.\<close>

lemma np_add_commute: "np_add x y = np_add y x"
  by (cases x; cases y) simp_all

lemma np_multiply_commute: "np_multiply x y = np_multiply y x"
  by (cases x; cases y) simp_all

lemma np_minimum_commute: "np_minimum x y = np_minimum y x"
  by (cases x; cases y) simp_all

lemma np_subtract_swap: "np_subtract x y = np_negative (np_subtract y x)"
  by (cases x; cases y) (simp_all add: np_subtract_def)

lemma is_odd_integer_2: "\<not> is_odd_integer 2"
  by (simp add: is_odd_integer_def)

lemma is_integer_2: "is_integer 2"
  by (simp add: is_integer_def)

lemma np_power_2_negative: "np_power (np_negative x) 2 = np_power x 2"
  by (cases x) (auto simp: is_odd_integer_2 is_integer_2)

lemma np_square_swap: "np_power (np_subtract x y) 2 = np_power (np_subtract y x) 2"
  by (subst np_subtract_swap) (rule np_power_2_negative)

lemma map2_commute:
  "(\<And>x y. f x y = f y x) \<Longrightarrow> map2 f a b = map2 f b a"
  by (induction a arbitrary: b) (auto split: list.splits simp: zip_Cons1)

lemma dot_commute: "dot a b = dot b a"
  unfolding dot_def by (simp add: map2_commute [of np_multiply a b] np_multiply_commute)

lemma sq_dist_commute: "sq_dist a b = sq_dist b a"
  unfolding sq_dist_def by (simp add: dot_commute [of a b] np_add_commute [of "sq_norm a"])

lemma col_sum_commute:
  "(\<And>x y. f x y = f y x) \<Longrightarrow> col_sum f a b ds x = col_sum f b a ds x"
  by (simp add: col_sum_def)

lemma map_ndarray_shape: "has_shape K n1 n2 \<Longrightarrow> has_shape (map_ndarray g K) n1 n2"
  by (simp add: has_shape_def map_ndarray_def)

lemma map_ndarray_entry:
  "has_shape K n1 n2 \<Longrightarrow> i < n1 \<Longrightarrow> j < n2 \<Longrightarrow> rows (map_ndarray g K) ! i ! j = g (rows K ! i ! j)"
  by (simp add: has_shape_def map_ndarray_def)

lemma transposed_map:
  assumes "transposed r1 r2 n1 n2"
  shows "transposed (case r1 of Inl e \<Rightarrow> Inl e | Inr K \<Rightarrow> Inr (map_ndarray g K))
           (case r2 of Inl e \<Rightarrow> Inl e | Inr K \<Rightarrow> Inr (map_ndarray g K)) n1 n2"
proof -
  from assms obtain K1 K2 where K: "r1 = Inr K1" "r2 = Inr K2" "has_shape K1 n1 n2"
    "has_shape K2 n2 n1" "\<forall>i<n1. \<forall>j<n2. rows K1 ! i ! j = rows K2 ! j ! i"
    unfolding transposed_def by blast
  have "\<forall>i<n1. \<forall>j<n2. rows (map_ndarray g K1) ! i ! j = rows (map_ndarray g K2) ! j ! i"
    using K(3,4,5) by (simp add: map_ndarray_entry)
  then show ?thesis
    unfolding transposed_def using K by (simp add: map_ndarray_shape)
qed

lemma euclid_transposed:
  assumes "shape1 A = shape1 B"
  shows "transposed (euclidean_dist_matrix A B) (euclidean_dist_matrix B A) (shape0 A) (shape0 B)"
  using assms
  by (simp add: transposed_def euclidean_dist_matrix_def has_shape_def shape0_def
      sq_dist_commute [of "rows A ! _"])

lemma column_loop_transposed:
  assumes "shape1 A = shape1 B" and "\<And>x y. f x y = f y x"
  shows "transposed
           (column_loop f A B [0..<shape1 A] (np_zeros (shape0 A) (shape0 B)))
           (column_loop f B A [0..<shape1 B] (np_zeros (shape0 B) (shape0 A)))
           (shape0 A) (shape0 B)"
proof -
  have le: "shape1 A \<le> shape1 B" "shape1 B \<le> shape1 A" using assms(1) by simp_all
  from column_loop_from_zeros [OF le(1), of f] obtain K1 where
    K1: "column_loop f A B [0..<shape1 A] (np_zeros (shape0 A) (shape0 B)) = Inr K1"
      "has_shape K1 (shape0 A) (shape0 B)"
      "\<forall>i<shape0 A. \<forall>j<shape0 B.
         rows K1 ! i ! j = col_sum f (rows A ! i) (rows B ! j) [0..<shape1 A] (Fin 0)"
    by blast
  from column_loop_from_zeros [OF le(2), of f] obtain K2 where
    K2: "column_loop f B A [0..<shape1 B] (np_zeros (shape0 B) (shape0 A)) = Inr K2"
      "has_shape K2 (shape0 B) (shape0 A)"
      "\<forall>j<shape0 B. \<forall>i<shape0 A.
         rows K2 ! j ! i = col_sum f (rows B ! j) (rows A ! i) [0..<shape1 B] (Fin 0)"
    by blast
  have "\<forall>i<shape0 A. \<forall>j<shape0 B. rows K1 ! i ! j = rows K2 ! j ! i"
    using K1(3) K2(3) assms(1) col_sum_commute [of f, OF assms(2)] by simp
  then show ?thesis
    unfolding transposed_def using K1(1,2) K2(1,2) by blast
qed

lemma map_ndarray_compose: "map_ndarray f (map_ndarray g a) = map_ndarray (\<lambda>x. f (g x)) a"
  by (simp add: map_ndarray_def)

lemma map_ndarray_shapes [simp]:
  "shape1 (map_ndarray g a) = shape1 a" "shape0 (map_ndarray g a) = shape0 a"
  by (simp_all add: map_ndarray_def shape0_def)

lemma Exponential_transposed:
  assumes "shape1 A = shape1 B"
  shows "transposed (snd (Exponential_compute sigma A B)) (snd (Exponential_compute sigma B A))
           (shape0 A) (shape0 B)"
proof -
  have eq: "(case sigma of None \<Rightarrow> real (shape1 B) | Some s \<Rightarrow> s) =
            (case sigma of None \<Rightarrow> real (shape1 A) | Some s \<Rightarrow> s)"
    using assms by (cases sigma) simp_all
  show ?thesis
    unfolding Exponential_compute_def Let_def snd_conv eq
    by (rule transposed_map [OF euclid_transposed [OF assms]])
qed

lemma Cauchy_transposed:
  assumes "shape1 A = shape1 B"
  shows "transposed (snd (Cauchy_compute sigma A B)) (snd (Cauchy_compute sigma B A))
           (shape0 A) (shape0 B)"
proof -
  have eq: "(case sigma of None \<Rightarrow> real (shape1 B) | Some s \<Rightarrow> s) =
            (case sigma of None \<Rightarrow> real (shape1 A) | Some s \<Rightarrow> s)"
    using assms by (cases sigma) simp_all
  show ?thesis
    unfolding Cauchy_compute_def Let_def snd_conv eq
    by (rule transposed_map [OF euclid_transposed [OF assms]])
qed

lemma RationalQuadratic_transposed:
  assumes "shape1 A = shape1 B"
  shows "transposed (RationalQuadratic_compute c A B) (RationalQuadratic_compute c B A)
           (shape0 A) (shape0 B)"
  unfolding RationalQuadratic_compute_def
  by (rule transposed_map [OF euclid_transposed [OF assms]])

lemma InverseMultiquadratic_transposed:
  assumes "shape1 A = shape1 B"
  shows "transposed (InverseMultiquadratic_compute c A B) (InverseMultiquadratic_compute c B A)
           (shape0 A) (shape0 B)"
  unfolding InverseMultiquadratic_compute_def
  by (rule transposed_map [OF euclid_transposed [OF assms]])

lemma TStudent_transposed:
  assumes "shape1 A = shape1 B"
  shows "transposed (TStudent_compute d A B) (TStudent_compute d B A) (shape0 A) (shape0 B)"
  unfolding TStudent_compute_def Let_def map_ndarray_compose
  by (rule transposed_map [OF euclid_transposed [OF assms]])

lemma Log_transposed:
  assumes "shape1 A = shape1 B"
  shows "transposed (Log_compute d A B) (Log_compute d B A) (shape0 A) (shape0 B)"
  unfolding Log_compute_def
  by (rule transposed_map [OF euclid_transposed [OF assms]])

lemma Power_transposed:
  assumes "shape1 A = shape1 B"
  shows "transposed (Power_compute d A B) (Power_compute d B A) (shape0 A) (shape0 B)"
  unfolding Power_compute_def
  by (rule transposed_map [OF euclid_transposed [OF assms]])

lemma ANOVA_transposed:
  assumes "shape1 A = shape1 B"
  shows "transposed (ANOVA_compute sigma d A B) (ANOVA_compute sigma d B A) (shape0 A) (shape0 B)"
  unfolding ANOVA_compute_def
  by (rule column_loop_transposed [OF assms]) (simp add: np_square_swap)

lemma AdditiveChi2_transposed:
  assumes "shape1 A = shape1 B" and "\<not> np_any_negative A" and "\<not> np_any_negative B"
  shows "transposed (AdditiveChi2_compute A B) (AdditiveChi2_compute B A) (shape0 A) (shape0 B)"
proof -
  have "transposed
      (column_loop (\<lambda>x y. np_divide (np_multiply (Fin 2) (np_multiply x y)) (np_add x y))
         A B [0..<shape1 A] (np_zeros (shape0 A) (shape0 B)))
      (column_loop (\<lambda>x y. np_divide (np_multiply (Fin 2) (np_multiply x y)) (np_add x y))
         B A [0..<shape1 B] (np_zeros (shape0 B) (shape0 A)))
      (shape0 A) (shape0 B)"
    by (rule column_loop_transposed [OF assms(1)])
       (simp add: np_multiply_commute [of x y for x y] np_add_commute [of x y for x y])
  then show ?thesis
    using assms(2,3) by (simp add: AdditiveChi2_compute_def)
qed

lemma Chi2_transposed:
  assumes "shape1 A = shape1 B" and "\<not> np_any_negative A" and "\<not> np_any_negative B"
  shows "transposed (Chi2_compute gamma A B) (Chi2_compute gamma B A) (shape0 A) (shape0 B)"
proof -
  have "transposed
      (column_loop (\<lambda>x y. np_divide (np_power (np_subtract x y) 2) (np_add x y))
         A B [0..<shape1 A] (np_zeros (shape0 A) (shape0 B)))
      (column_loop (\<lambda>x y. np_divide (np_power (np_subtract x y) 2) (np_add x y))
         B A [0..<shape1 B] (np_zeros (shape0 B) (shape0 A)))
      (shape0 A) (shape0 B)"
    by (rule column_loop_transposed [OF assms(1)])
       (simp add: np_square_swap [of x y for x y] np_add_commute [of x y for x y])
  from transposed_map [OF this]
  show ?thesis
    using assms(2,3) by (simp add: Chi2_compute_def)
qed

lemma Min_transposed:
  assumes "shape1 A = shape1 B" and "\<not> np_any_negative A" and "\<not> np_any_negative B"
  shows "transposed (Min_compute A B) (Min_compute B A) (shape0 A) (shape0 B)"
proof -
  have "transposed
      (column_loop np_minimum A B [0..<shape1 A] (np_zeros (shape0 A) (shape0 B)))
      (column_loop np_minimum B A [0..<shape1 B] (np_zeros (shape0 B) (shape0 A)))
      (shape0 A) (shape0 B)"
    by (rule column_loop_transposed [OF assms(1)]) (rule np_minimum_commute)
  then show ?thesis
    using assms(2,3) by (simp add: Min_compute_def)
qed

lemma GeneralizedHistogramIntersection_transposed:
  assumes "shape1 A = shape1 B"
  shows "transposed (GeneralizedHistogramIntersection_compute alpha A B)
           (GeneralizedHistogramIntersection_compute alpha B A) (shape0 A) (shape0 B)"
  using Min_transposed [of "map_ndarray (\<lambda>x. np_power (np_abs x) alpha) A"
      "map_ndarray (\<lambda>x. np_power (np_abs x) alpha) B"] assms
  by (simp add: GeneralizedHistogramIntersection_compute_def not_negative_power_abs)

lemma compute_transposed:
  assumes "shape1 A = shape1 B" and "in_domain k A" and "in_domain k B"
  shows "transposed (snd (compute k A B)) (snd (compute k B A)) (shape0 A) (shape0 B)"
proof (cases k)
  case (Exponential sigma)
  then show ?thesis using Exponential_transposed [OF assms(1)] by (simp add: split_beta)
next
  case (Laplacian sigma)
  then show ?thesis using Exponential_transposed [OF assms(1)] by (simp add: split_beta)
next
  case (RationalQuadratic c)
  then show ?thesis using RationalQuadratic_transposed [OF assms(1)] by simp
next
  case (InverseMultiquadratic c)
  then show ?thesis using InverseMultiquadratic_transposed [OF assms(1)] by simp
next
  case (CauchyKernel sigma)
  then show ?thesis using Cauchy_transposed [OF assms(1)] by (simp add: split_beta)
next
  case (TStudent d)
  then show ?thesis using TStudent_transposed [OF assms(1)] by simp
next
  case (ANOVA sigma d)
  then show ?thesis using ANOVA_transposed [OF assms(1)] by simp
next
  case AdditiveChi2
  then show ?thesis using AdditiveChi2_transposed [OF assms(1)] assms(2,3) by simp
next
  case (Chi2 gamma)
  then show ?thesis using Chi2_transposed [OF assms(1)] assms(2,3) by simp
next
  case MinKernel
  then show ?thesis using Min_transposed [OF assms(1)] assms(2,3) by simp
next
  case (GeneralizedHistogramIntersection alpha)
  then show ?thesis using GeneralizedHistogramIntersection_transposed [OF assms(1)] by simp
next
  case (Log d)
  then show ?thesis using Log_transposed [OF assms(1)] by simp
next
  case (Power d)
  then show ?thesis using Power_transposed [OF assms(1)] by simp
qed

text \<open>
  Claim C7 as the specification states it, with the comparison \<^verbatim>\<open>==\<close>,
  fails.  The rows \<open>(0, 1)\<close> and \<open>(0, 2)\<close> have no negative entry, so they are in
  the domain of \<^verbatim>\<open>AdditiveChi2\<close>; both are zero in their first column, so
  the kernel returns the matrix of one entry that is not a number, in either
  order of the arguments, and that entry does not compare equal to itself.
\<close>

theorem symmetric_NaN_counterexample:
  "in_domain AdditiveChi2 \<lparr>shape1 = 2, rows = [[Fin 0, Fin 1]]\<rparr> \<and>
   in_domain AdditiveChi2 \<lparr>shape1 = 2, rows = [[Fin 0, Fin 2]]\<rparr> \<and>
   snd (compute AdditiveChi2 \<lparr>shape1 = 2, rows = [[Fin 0, Fin 1]]\<rparr>
          \<lparr>shape1 = 2, rows = [[Fin 0, Fin 2]]\<rparr>) = Inr \<lparr>shape1 = 1, rows = [[NaN]]\<rparr> \<and>
   snd (compute AdditiveChi2 \<lparr>shape1 = 2, rows = [[Fin 0, Fin 2]]\<rparr>
          \<lparr>shape1 = 2, rows = [[Fin 0, Fin 1]]\<rparr>) = Inr \<lparr>shape1 = 1, rows = [[NaN]]\<rparr> \<and>
   \<not> np_equal (rows \<lparr>shape1 = 1, rows = [[NaN]]\<rparr> ! 0 ! 0)
                (rows \<lparr>shape1 = 1, rows = [[NaN]]\<rparr> ! 0 ! 0)"
  by (simp add: AdditiveChi2_compute_def np_any_negative_def column_def broadcast_def iadd_def
      np_zeros_def shape0_def upt_rec np_equal_def)

text \<open>
  Claim C7, amended.  For every kernel of the catalog and all inputs \<open>A\<close> and
  \<open>B\<close> with the same number of columns and values in the kernel's domain,
  compute returns a matrix on \<open>(A, B)\<close> and on \<open>(B, A)\<close>, and entry \<open>(i, j)\<close> of
  the first is the same value as entry \<open>(j, i)\<close> of the second, for every pair
  of indices; the two compare equal with \<^verbatim>\<open>==\<close> exactly when that value is a
  number.  Hence the matrix that compute returns on \<open>(A, A)\<close> has the same
  value at \<open>(i, j)\<close> and at \<open>(j, i)\<close>, and is equal to its transpose with
  \<^verbatim>\<open>==\<close> at every entry that is a number.
\<close>

theorem compute_symmetric:
  assumes "wf_ndarray A" and "wf_ndarray B" and "shape1 A = shape1 B"
    and "in_domain k A" and "in_domain k B"
  shows "(\<exists>K1 K2. snd (compute k A B) = Inr K1 \<and> snd (compute k B A) = Inr K2 \<and>
            has_shape K1 (shape0 A) (shape0 B) \<and> has_shape K2 (shape0 B) (shape0 A) \<and>
            (\<forall>i<shape0 A. \<forall>j<shape0 B.
               rows K1 ! i ! j = rows K2 ! j ! i \<and>
               (np_equal (rows K1 ! i ! j) (rows K2 ! j ! i) \<longleftrightarrow> rows K1 ! i ! j \<noteq> NaN))) \<and>
         (\<exists>K. snd (compute k A A) = Inr K \<and> has_shape K (shape0 A) (shape0 A) \<and>
            (\<forall>i<shape0 A. \<forall>j<shape0 A.
               rows K ! i ! j = rows K ! j ! i \<and>
               (np_equal (rows K ! i ! j) (rows K ! j ! i) \<longleftrightarrow> rows K ! i ! j \<noteq> NaN)))"
proof -
  have eq: "x = y \<Longrightarrow> np_equal x y \<longleftrightarrow> x \<noteq> NaN" for x y
    by (auto simp: np_equal_def)
  have 1: "transposed (snd (compute k A B)) (snd (compute k B A)) (shape0 A) (shape0 B)"
    using assms(3,4,5) by (rule compute_transposed)
  then obtain K1 K2 where K: "snd (compute k A B) = Inr K1" "snd (compute k B A) = Inr K2"
    "has_shape K1 (shape0 A) (shape0 B)" "has_shape K2 (shape0 B) (shape0 A)"
    "\<forall>i<shape0 A. \<forall>j<shape0 B. rows K1 ! i ! j = rows K2 ! j ! i"
    unfolding transposed_def by blast
  have P: "\<exists>K1 K2. snd (compute k A B) = Inr K1 \<and> snd (compute k B A) = Inr K2 \<and>
            has_shape K1 (shape0 A) (shape0 B) \<and> has_shape K2 (shape0 B) (shape0 A) \<and>
            (\<forall>i<shape0 A. \<forall>j<shape0 B.
               rows K1 ! i ! j = rows K2 ! j ! i \<and>
               (np_equal (rows K1 ! i ! j) (rows K2 ! j ! i) \<longleftrightarrow> rows K1 ! i ! j \<noteq> NaN))"
    using K eq by blast
  have 2: "transposed (snd (compute k A A)) (snd (compute k A A)) (shape0 A) (shape0 A)"
    using assms(4) by (intro compute_transposed) simp_all
  then obtain K where L: "snd (compute k A A) = Inr K" "has_shape K (shape0 A) (shape0 A)"
    "\<forall>i<shape0 A. \<forall>j<shape0 A. rows K ! i ! j = rows K ! j ! i"
    unfolding transposed_def by auto
  have Q: "\<exists>K. snd (compute k A A) = Inr K \<and> has_shape K (shape0 A) (shape0 A) \<and>
            (\<forall>i<shape0 A. \<forall>j<shape0 A.
               rows K ! i ! j = rows K ! j ! i \<and>
               (np_equal (rows K ! i ! j) (rows K ! j ! i) \<longleftrightarrow> rows K ! i ! j \<noteq> NaN))"
    using L eq by blast
  show ?thesis using P Q by (rule conjI)
qed

theorem compute_symmetric_witness:
  "(\<exists>K1 K2.
      snd (compute MinKernel \<lparr>shape1 = 2, rows = [[Fin 2, Fin 3]]\<rparr>
             \<lparr>shape1 = 2, rows = [[Fin 1, Fin 1], [Fin 5, Fin 2]]\<rparr>) = Inr K1 \<and>
      snd (compute MinKernel \<lparr>shape1 = 2, rows = [[Fin 1, Fin 1], [Fin 5, Fin 2]]\<rparr>
             \<lparr>shape1 = 2, rows = [[Fin 2, Fin 3]]\<rparr>) = Inr K2 \<and>
      rows K1 ! 0 ! 1 = rows K2 ! 1 ! 0 \<and> np_equal (rows K1 ! 0 ! 1) (rows K2 ! 1 ! 0)) \<and>
   snd (compute MinKernel \<lparr>shape1 = 2, rows = [[Fin 2, Fin 3]]\<rparr>
          \<lparr>shape1 = 2, rows = [[Fin 1, Fin 1], [Fin 5, Fin 2]]\<rparr>) =
     Inr \<lparr>shape1 = 2, rows = [[Fin 2, Fin 4]]\<rparr> \<and>
   snd (compute MinKernel \<lparr>shape1 = 2, rows = [[Fin 1, Fin 1], [Fin 5, Fin 2]]\<rparr>
          \<lparr>shape1 = 2, rows = [[Fin 2, Fin 3]]\<rparr>) =
     Inr \<lparr>shape1 = 1, rows = [[Fin 2], [Fin 4]]\<rparr>"
proof -
  let ?A = "\<lparr>shape1 = 2, rows = [[Fin 2, Fin 3]]\<rparr>"
  let ?B = "\<lparr>shape1 = 2, rows = [[Fin 1, Fin 1], [Fin 5, Fin 2]]\<rparr>"
  have hyps: "wf_ndarray ?A" "wf_ndarray ?B" "shape1 ?A = shape1 ?B"
    "in_domain MinKernel ?A" "in_domain MinKernel ?B"
    by (simp_all add: wf_ndarray_def np_any_negative_def)
  have 2: "snd (compute MinKernel ?A ?B) = Inr \<lparr>shape1 = 2, rows = [[Fin 2, Fin 4]]\<rparr>"
    by (simp add: Min_compute_def np_any_negative_def column_def broadcast_def iadd_def
        np_zeros_def shape0_def upt_rec)
  have 3: "snd (compute MinKernel ?B ?A) = Inr \<lparr>shape1 = 1, rows = [[Fin 2], [Fin 4]]\<rparr>"
    by (simp add: Min_compute_def np_any_negative_def column_def broadcast_def iadd_def
        np_zeros_def shape0_def upt_rec)
  from compute_symmetric [OF hyps, THEN conjunct1]
  obtain K1 K2 where K: "snd (compute MinKernel ?A ?B) = Inr K1"
    "snd (compute MinKernel ?B ?A) = Inr K2"
    "\<forall>i<shape0 ?A. \<forall>j<shape0 ?B. rows K1 ! i ! j = rows K2 ! j ! i \<and>
       (np_equal (rows K1 ! i ! j) (rows K2 ! j ! i) \<longleftrightarrow> rows K1 ! i ! j \<noteq> NaN)"
    by blast
  have e: "rows K1 ! 0 ! 1 = rows K2 ! 1 ! 0 \<and>
       (np_equal (rows K1 ! 0 ! 1) (rows K2 ! 1 ! 0) \<longleftrightarrow> rows K1 ! 0 ! 1 \<noteq> NaN)"
    using K(3) by (auto simp: shape0_def)
  have "rows K1 ! 0 ! 1 \<noteq> NaN"
    using K(1) 2 by auto
  then have 1: "\<exists>K1 K2. snd (compute MinKernel ?A ?B) = Inr K1 \<and>
      snd (compute MinKernel ?B ?A) = Inr K2 \<and> rows K1 ! 0 ! 1 = rows K2 ! 1 ! 0 \<and>
      np_equal (rows K1 ! 0 ! 1) (rows K2 ! 1 ! 0)"
    using K(1,2) e by blast
  show ?thesis using 1 2 3 by simp
qed

section \<open>The distance of rows of finite numbers\<close>

text \<open>
  On two rows of finite numbers of the same length, the expansion of the
  distance utility is the sum of the squared differences: a finite number that
  is not negative.  So the entries of the distance matrix of inputs with finite
  entries are in the range where the kernels' formulas are the real ones.
\<close>

lemma np_sum_Fin_aux: "foldl np_add (Fin s) (map Fin xs) = Fin (s + sum_list xs)"
  by (induction xs arbitrary: s) (simp_all add: add.assoc)

lemma np_sum_Fin: "np_sum (map Fin xs) = Fin (sum_list xs)"
  by (simp add: np_sum_def np_sum_Fin_aux)

lemma sq_norm_Fin: "sq_norm (map Fin xs) = Fin (\<Sum>x\<leftarrow>xs. x * x)"
proof -
  have "map (\<lambda>x. np_multiply x x) (map Fin xs) = map Fin (map (\<lambda>x. x * x) xs)"
    by simp
  then show ?thesis
    unfolding sq_norm_def by (simp only: np_sum_Fin)
qed

lemma dot_Fin: "dot (map Fin xs) (map Fin ys) = Fin (\<Sum>(x, y)\<leftarrow>zip xs ys. x * y)"
proof -
  have "map2 np_multiply (map Fin xs) (map Fin ys) = map Fin (map (\<lambda>(x, y). x * y) (zip xs ys))"
    by (simp add: zip_map_map split_beta)
  then show ?thesis
    unfolding dot_def by (simp only: np_sum_Fin)
qed

lemma expansion:
  "length xs = length ys \<Longrightarrow>
   (\<Sum>x\<leftarrow>xs. x * x) + (\<Sum>y\<leftarrow>ys. y * y) - 2 * (\<Sum>(x, y)\<leftarrow>zip xs ys. x * y) =
   (\<Sum>(x, y)\<leftarrow>zip xs ys. (x - y) ^ 2 :: real)"
  by (induction xs ys rule: list_induct2) (simp_all add: power2_eq_square algebra_simps)

lemma sq_dist_Fin:
  assumes "length xs = length ys"
  shows "sq_dist (map Fin xs) (map Fin ys) = Fin (\<Sum>(x, y)\<leftarrow>zip xs ys. (x - y) ^ 2)"
  using expansion [OF assms]
  by (simp add: sq_dist_def sq_norm_Fin dot_Fin np_subtract_def)

lemma sq_dist_nonneg:
  assumes "length xs = length ys"
  shows "\<exists>v\<ge>0. sq_dist (map Fin xs) (map Fin ys) = Fin v"
proof -
  have "0 \<le> (\<Sum>(x, y)\<leftarrow>zip xs ys. (x - y) ^ 2 :: real)"
    by (rule sum_list_nonneg) auto
  then show ?thesis using sq_dist_Fin [OF assms] by blast
qed

end
